theory Spec2Isabelle
  imports Complex_Main
begin

section \<open>Data model (models.py, schemas.py)\<close>

text \<open>
  Python integers are unbounded, hence \<open>int\<close>. A \<open>Float\<close> column is modelled by an
  exact \<open>real\<close>: the theorems below are about the formulas the code evaluates, not about
  binary rounding. A naive \<open>datetime\<close> is a number of seconds, a \<open>date\<close> a number of days.
\<close>

type_synonym datetime = int
type_synonym date = int

definition timedelta_days :: "int \<Rightarrow> int" where
  "timedelta_days n = n * 86400"

definition date_of :: "datetime \<Rightarrow> date" where
  "date_of t = t div 86400"

definition combine_min_time :: "date \<Rightarrow> datetime" where
  "combine_min_time d = d * 86400"

datatype TransactionType = IN | OUT | ADJUSTMENT | RETURN | EXPIRED | DAMAGED | RECALLED

datatype AlertType = LOW_STOCK | STOCK_OUT | EXPIRY_WARNING | DELAYED_DELIVERY

text \<open>\<open>class Medicine\<close>; the columns no modelled function reads are left out.\<close>

record Medicine =
  m_id :: int
  m_sku :: string
  m_name :: string
  m_category :: "string option"
  m_mrp :: "real option"
  m_is_active :: bool

text \<open>\<open>class Batch\<close>; \<open>updated_at\<close> has \<open>onupdate=func.now()\<close> and no default.\<close>

record Batch =
  b_id :: int
  b_medicine_id :: int
  b_batch_number :: string
  b_quantity :: int
  b_expiry_date :: datetime
  b_is_expired :: bool
  b_is_damaged :: bool
  b_is_recalled :: bool
  b_is_returned :: bool
  b_updated_at :: "datetime option"

text \<open>\<open>class InventoryTransaction\<close>.\<close>

record InventoryTransaction =
  t_id :: int
  t_medicine_id :: int
  t_batch_id :: "int option"
  t_transaction_type :: TransactionType
  t_quantity :: int
  t_unit_price :: "real option"
  t_notes :: "string option"
  t_created_by :: "int option"
  t_created_at :: datetime

text \<open>
  The alert messages are f-strings; the model keeps the values they are built from
  instead of the formatted text.
\<close>

datatype alert_message =
    LowStockMessage string string int
  | RunningLowMessage string int
  | ExpiresInMessage string string int

text \<open>\<open>class Alert\<close>.\<close>

record Alert =
  a_id :: int
  a_alert_type :: AlertType
  a_medicine_id :: "int option"
  a_batch_id :: "int option"
  a_message :: alert_message
  a_severity :: string
  a_is_acknowledged :: bool
  a_acknowledged_by :: "int option"
  a_acknowledged_at :: "datetime option"
  a_created_at :: datetime

text \<open>\<open>class TransactionCreate\<close> (schemas.py): \<open>quantity: int\<close> carries no constraint.\<close>

record TransactionCreate =
  tc_medicine_id :: int
  tc_batch_id :: "int option"
  tc_transaction_type :: TransactionType
  tc_quantity :: int
  tc_unit_price :: "real option"
  tc_notes :: "string option"

section \<open>The database session\<close>

text \<open>
  The tables are lists of rows in primary-key order. A session holds the committed
  tables and its own working copy: attribute assignments and \<open>db.add\<close> change the working
  copy, \<open>db.commit()\<close> makes the working copy the committed state in one step. Whether a
  query sees rows added earlier in the same session and not yet committed depends on the
  \<open>autoflush\<close> setting of the session factory, which lives in \<open>database.py\<close>; it is a field
  of the session here.
\<close>

record tables =
  medicines :: "Medicine list"
  batches :: "Batch list"
  transactions :: "InventoryTransaction list"
  alerts :: "Alert list"

record session =
  persisted :: tables
  working :: tables
  autoflush :: bool

definition open_session :: "bool \<Rightarrow> tables \<Rightarrow> session" where
  "open_session af t = \<lparr>persisted = t, working = t, autoflush = af\<rparr>"

definition db_commit :: "session \<Rightarrow> session" where
  "db_commit db = db\<lparr>persisted := working db\<rparr>"

text \<open>The next value of an integer primary key: one more than the largest in the table.\<close>

definition next_id :: "int list \<Rightarrow> int" where
  "next_id ids = foldr max ids 0 + 1"

text \<open>\<open>db.query(Medicine).filter(Medicine.id == i).first()\<close> and its siblings.\<close>

definition get_medicine :: "session \<Rightarrow> int \<Rightarrow> Medicine option" where
  "get_medicine db i = find (\<lambda>m. m_id m = i) (medicines (working db))"

definition get_batch :: "session \<Rightarrow> int \<Rightarrow> Batch option" where
  "get_batch db i = find (\<lambda>b. b_id b = i) (batches (working db))"

definition get_alert :: "session \<Rightarrow> int \<Rightarrow> Alert option" where
  "get_alert db i = find (\<lambda>a. a_id a = i) (alerts (working db))"

text \<open>
  Assigning to attributes of a loaded row: the row with this key is replaced in the
  working copy. A row whose columns really changed gets \<open>updated_at\<close> set to the time of
  the write (\<open>onupdate=func.now()\<close>).
\<close>

definition touch :: "datetime \<Rightarrow> Batch \<Rightarrow> Batch \<Rightarrow> Batch" where
  "touch now old new = (if new = old then old else new\<lparr>b_updated_at := Some now\<rparr>)"

fun replace_batch :: "int \<Rightarrow> (Batch \<Rightarrow> Batch) \<Rightarrow> Batch list \<Rightarrow> Batch list" where
  "replace_batch i f [] = []"
| "replace_batch i f (b # bs) =
     (if b_id b = i then f b # bs else b # replace_batch i f bs)"

definition set_batch :: "datetime \<Rightarrow> int \<Rightarrow> (Batch \<Rightarrow> Batch) \<Rightarrow> session \<Rightarrow> session" where
  "set_batch now i f db =
     db\<lparr>working := (working db)\<lparr>batches :=
       replace_batch i (\<lambda>b. touch now b (f b)) (batches (working db))\<rparr>\<rparr>"

fun replace_alert :: "int \<Rightarrow> (Alert \<Rightarrow> Alert) \<Rightarrow> Alert list \<Rightarrow> Alert list" where
  "replace_alert i f [] = []"
| "replace_alert i f (a # as) =
     (if a_id a = i then f a # as else a # replace_alert i f as)"

definition set_alert :: "int \<Rightarrow> (Alert \<Rightarrow> Alert) \<Rightarrow> session \<Rightarrow> session" where
  "set_alert i f db =
     db\<lparr>working := (working db)\<lparr>alerts := replace_alert i f (alerts (working db))\<rparr>\<rparr>"

text \<open>\<open>db.add(row)\<close>: the row gets its key and its \<open>created_at\<close> default, and is appended.\<close>

definition inserted_transaction :: "session \<Rightarrow> InventoryTransaction \<Rightarrow> InventoryTransaction" where
  "inserted_transaction db t = t\<lparr>t_id := next_id (map t_id (transactions (working db)))\<rparr>"

definition add_transaction :: "InventoryTransaction \<Rightarrow> session \<Rightarrow> session" where
  "add_transaction t db =
     db\<lparr>working := (working db)\<lparr>transactions :=
       transactions (working db) @ [inserted_transaction db t]\<rparr>\<rparr>"

definition add_alert :: "Alert \<Rightarrow> session \<Rightarrow> session" where
  "add_alert a db =
     db\<lparr>working := (working db)\<lparr>alerts :=
       alerts (working db) @ [a\<lparr>a_id := next_id (map a_id (alerts (working db)))\<rparr>]\<rparr>\<rparr>"

text \<open>
  What a query on \<open>Alert\<close> sees: with autoflush the rows added in this session too,
  without it the committed rows only.
\<close>

definition visible_alerts :: "session \<Rightarrow> Alert list" where
  "visible_alerts db = alerts (if autoflush db then working db else persisted db)"

section \<open>Errors\<close>

text \<open>
  \<open>HTTPException(status_code, detail)\<close>, with the names the specification gives the
  errors, and the \<open>AttributeError\<close> of reading \<open>batch.medicine.name\<close> when the
  relationship is \<open>None\<close>.
\<close>

datatype exception = HTTPException int string | AttributeError

definition MedicineNotFound :: exception where
  "MedicineNotFound = HTTPException 404 ''Medicine not found''"

definition BatchNotFound :: exception where
  "BatchNotFound = HTTPException 404 ''Batch not found''"

definition AlertNotFound :: exception where
  "AlertNotFound = HTTPException 404 ''Alert not found''"

definition InsufficientStock :: exception where
  "InsufficientStock = HTTPException 400 ''Insufficient stock''"

definition ExceedsAvailable :: exception where
  "ExceedsAvailable = HTTPException 400 ''Damaged quantity exceeds available stock''"

section \<open>Transaction processor (routers/inventory.py, create_transaction)\<close>

text \<open>
  Lines 865 to 875: the batch is touched only when \<open>batch_id\<close> is truthy (neither
  \<open>None\<close> nor 0) and the type is \<open>OUT\<close> or \<open>IN\<close>.
\<close>

definition update_batch_quantity ::
  "TransactionCreate \<Rightarrow> datetime \<Rightarrow> session \<Rightarrow> exception + session" where
  "update_batch_quantity transaction now db =
     (case tc_batch_id transaction of
        None \<Rightarrow> Inr db
      | Some bid \<Rightarrow>
          if bid = 0 then Inr db
          else
            (case get_batch db bid of
               None \<Rightarrow> Inl BatchNotFound
             | Some batch \<Rightarrow>
                 if tc_transaction_type transaction = OUT then
                   (if b_quantity batch < tc_quantity transaction then Inl InsufficientStock
                    else Inr (set_batch now bid
                      (\<lambda>b. b\<lparr>b_quantity := b_quantity b - tc_quantity transaction\<rparr>) db))
                 else if tc_transaction_type transaction = IN then
                   Inr (set_batch now bid
                      (\<lambda>b. b\<lparr>b_quantity := b_quantity b + tc_quantity transaction\<rparr>) db)
                 else Inr db))"

text \<open>\<open>InventoryTransaction(**transaction.dict(), created_by=current_user.id)\<close>.\<close>

definition transaction_row ::
  "TransactionCreate \<Rightarrow> int \<Rightarrow> datetime \<Rightarrow> InventoryTransaction" where
  "transaction_row transaction user_id now =
     \<lparr>t_id = 0,
      t_medicine_id = tc_medicine_id transaction,
      t_batch_id = tc_batch_id transaction,
      t_transaction_type = tc_transaction_type transaction,
      t_quantity = tc_quantity transaction,
      t_unit_price = tc_unit_price transaction,
      t_notes = tc_notes transaction,
      t_created_by = Some user_id,
      t_created_at = now\<rparr>"

definition create_transaction ::
  "TransactionCreate \<Rightarrow> int \<Rightarrow> datetime \<Rightarrow> session \<Rightarrow>
     (exception + InventoryTransaction) \<times> session" where
  "create_transaction transaction user_id now db =
     (case get_medicine db (tc_medicine_id transaction) of
        None \<Rightarrow> (Inl MedicineNotFound, db)
      | Some medicine \<Rightarrow>
          (case update_batch_quantity transaction now db of
             Inl e \<Rightarrow> (Inl e, db)
           | Inr db1 \<Rightarrow>
               let db_transaction = transaction_row transaction user_id now;
                   db2 = add_transaction db_transaction db1;
                   db3 = db_commit db2
               in (Inr (inserted_transaction db1 db_transaction), db3)))"

section \<open>Disposal (routers/waste.py, mark_batch_expired and mark_batch_damaged)\<close>

text \<open>
  The function assigns to the loaded \<open>batch\<close> object and reads it back when it builds
  the transaction, so the model names the object after each assignment.
\<close>

definition mark_batch_expired ::
  "int \<Rightarrow> int \<Rightarrow> datetime \<Rightarrow> session \<Rightarrow> (exception + string) \<times> session" where
  "mark_batch_expired batch_id user_id now db =
     (case get_batch db batch_id of
        None \<Rightarrow> (Inl BatchNotFound, db)
      | Some batch \<Rightarrow>
          let batch1 = batch\<lparr>b_is_expired := True\<rparr>;
              batch2 = batch1\<lparr>b_quantity := 0\<rparr>;
              db1 = set_batch now batch_id (\<lambda>_. batch2) db;
              transaction =
                \<lparr>t_id = 0,
                 t_medicine_id = b_medicine_id batch2,
                 t_batch_id = Some (b_id batch2),
                 t_transaction_type = EXPIRED,
                 t_quantity = b_quantity batch2,
                 t_unit_price = None,
                 t_notes = Some ''Marked as expired'',
                 t_created_by = Some user_id,
                 t_created_at = now\<rparr>;
              db2 = add_transaction transaction db1;
              db3 = db_commit db2
          in (Inr ''Batch marked as expired'', db3))"

definition mark_batch_damaged ::
  "int \<Rightarrow> int \<Rightarrow> int \<Rightarrow> datetime \<Rightarrow> session \<Rightarrow> (exception + string) \<times> session" where
  "mark_batch_damaged batch_id quantity user_id now db =
     (case get_batch db batch_id of
        None \<Rightarrow> (Inl BatchNotFound, db)
      | Some batch \<Rightarrow>
          if quantity > b_quantity batch then (Inl ExceedsAvailable, db)
          else
            let batch1 = batch\<lparr>b_is_damaged := True\<rparr>;
                batch2 = batch1\<lparr>b_quantity := b_quantity batch1 - quantity\<rparr>;
                db1 = set_batch now batch_id (\<lambda>_. batch2) db;
                transaction =
                  \<lparr>t_id = 0,
                   t_medicine_id = b_medicine_id batch2,
                   t_batch_id = Some (b_id batch2),
                   t_transaction_type = DAMAGED,
                   t_quantity = quantity,
                   t_unit_price = None,
                   t_notes = Some ''Marked as damaged'',
                   t_created_by = Some user_id,
                   t_created_at = now\<rparr>;
                db2 = add_transaction transaction db1;
                db3 = db_commit db2
            in (Inr ''Batch marked as damaged'', db3))"

section \<open>Alerts (routers/alerts.py)\<close>

definition acknowledge_alert ::
  "int \<Rightarrow> int \<Rightarrow> datetime \<Rightarrow> session \<Rightarrow> (exception + string) \<times> session" where
  "acknowledge_alert alert_id user_id now db =
     (case get_alert db alert_id of
        None \<Rightarrow> (Inl AlertNotFound, db)
      | Some alert \<Rightarrow>
          let alert1 = alert\<lparr>a_is_acknowledged := True\<rparr>;
              alert2 = alert1\<lparr>a_acknowledged_by := Some user_id\<rparr>;
              alert3 = alert2\<lparr>a_acknowledged_at := Some now\<rparr>;
              db1 = set_alert alert_id (\<lambda>_. alert3) db;
              db2 = db_commit db1
          in (Inr ''Alert acknowledged'', db2))"

text \<open>\<open>medicine.batches\<close>: the rows of \<open>batches\<close> whose foreign key is this medicine.\<close>

definition medicine_batches :: "session \<Rightarrow> Medicine \<Rightarrow> Batch list" where
  "medicine_batches db medicine =
     filter (\<lambda>b. b_medicine_id b = m_id medicine) (batches (working db))"

text \<open>\<open>sum([b.quantity for b in medicine.batches if not b.is_expired])\<close>.\<close>

definition total_stock :: "session \<Rightarrow> Medicine \<Rightarrow> int" where
  "total_stock db medicine =
     sum_list (map b_quantity (filter (\<lambda>b. \<not> b_is_expired b) (medicine_batches db medicine)))"

text \<open>
  The query for an open alert of one type on one medicine,
  \<open>filter(Alert.medicine_id == i, Alert.alert_type == ty, Alert.is_acknowledged == False).first()\<close>.
\<close>

definition existing_medicine_alert :: "session \<Rightarrow> int \<Rightarrow> AlertType \<Rightarrow> Alert option" where
  "existing_medicine_alert db i ty =
     find (\<lambda>a. a_medicine_id a = Some i \<and> a_alert_type a = ty \<and> \<not> a_is_acknowledged a)
       (visible_alerts db)"

definition existing_batch_alert :: "session \<Rightarrow> int \<Rightarrow> AlertType \<Rightarrow> Alert option" where
  "existing_batch_alert db i ty =
     find (\<lambda>a. a_batch_id a = Some i \<and> a_alert_type a = ty \<and> \<not> a_is_acknowledged a)
       (visible_alerts db)"

text \<open>\<open>Alert(...)\<close> with the column defaults of models.py.\<close>

definition new_alert ::
  "AlertType \<Rightarrow> int option \<Rightarrow> int option \<Rightarrow> alert_message \<Rightarrow> string \<Rightarrow> datetime \<Rightarrow> Alert" where
  "new_alert ty mid bid msg sev now =
     \<lparr>a_id = 0, a_alert_type = ty, a_medicine_id = mid, a_batch_id = bid, a_message = msg,
      a_severity = sev, a_is_acknowledged = False, a_acknowledged_by = None,
      a_acknowledged_at = None, a_created_at = now\<rparr>"

text \<open>
  The body of the loop of \<open>check_low_stock\<close> for one medicine; the state is the session
  and \<open>alerts_created\<close>.
\<close>

definition check_low_stock_body ::
  "datetime \<Rightarrow> Medicine \<Rightarrow> session \<times> nat \<Rightarrow> session \<times> nat" where
  "check_low_stock_body now medicine st =
     (let db = fst st; alerts_created = snd st;
          stock = total_stock db medicine
      in case existing_medicine_alert db (m_id medicine) LOW_STOCK of
           Some existing_alert \<Rightarrow> (db, alerts_created)
         | None \<Rightarrow>
             if stock < 20 then
               let severity = (if stock = 0 then ''critical''
                               else if stock < 10 then ''high'' else ''medium'');
                   alert = new_alert (if stock = 0 then STOCK_OUT else LOW_STOCK)
                             (Some (m_id medicine)) None
                             (LowStockMessage (m_name medicine) (m_sku medicine) stock)
                             severity now
               in (add_alert alert db, alerts_created + 1)
             else (db, alerts_created))"

fun check_low_stock_loop ::
  "datetime \<Rightarrow> Medicine list \<Rightarrow> session \<times> nat \<Rightarrow> session \<times> nat" where
  "check_low_stock_loop now [] st = st"
| "check_low_stock_loop now (medicine # rest) st =
     check_low_stock_loop now rest (check_low_stock_body now medicine st)"

text \<open>The endpoint returns the number of alerts it created (inside a message).\<close>

definition check_low_stock :: "datetime \<Rightarrow> session \<Rightarrow> nat \<times> session" where
  "check_low_stock now db =
     (let medicines_active = filter m_is_active (medicines (working db));
          st = check_low_stock_loop now medicines_active (db, 0)
      in (snd st, db_commit (fst st)))"

section \<open>Alert rules run after an upload (routers/inventory.py)\<close>

text \<open>\<open>settings.EXPIRY_ALERT_DAYS\<close> (config.py).\<close>

definition EXPIRY_ALERT_DAYS :: "int list" where
  "EXPIRY_ALERT_DAYS = [30, 60, 90]"

text \<open>
  The query of \<open>check_low_stock_alerts\<close>: medicines joined with their batches that have
  \<open>quantity > 0\<close> and are not expired, grouped by medicine. A medicine without such a
  batch has no row in the join and so no group.
\<close>

definition stocked_batches :: "session \<Rightarrow> Medicine \<Rightarrow> Batch list" where
  "stocked_batches db medicine =
     filter (\<lambda>b. b_quantity b > 0 \<and> \<not> b_is_expired b) (medicine_batches db medicine)"

definition stock_levels :: "session \<Rightarrow> (int \<times> string \<times> int) list" where
  "stock_levels db =
     map (\<lambda>m. (m_id m, m_name m, sum_list (map b_quantity (stocked_batches db m))))
       (filter (\<lambda>m. stocked_batches db m \<noteq> []) (medicines (working db)))"

definition check_low_stock_alerts_body ::
  "datetime \<Rightarrow> int \<times> string \<times> int \<Rightarrow> session \<Rightarrow> session" where
  "check_low_stock_alerts_body now row db =
     (let medicine_id = fst row; medicine_name = fst (snd row);
          total_quantity = snd (snd row)
      in if total_quantity < 20 then
           (case existing_medicine_alert db medicine_id LOW_STOCK of
              Some existing_alert \<Rightarrow> db
            | None \<Rightarrow>
                add_alert
                  (new_alert LOW_STOCK (Some medicine_id) None
                     (RunningLowMessage medicine_name total_quantity)
                     (if total_quantity = 0 then ''high'' else ''medium'') now) db)
         else db)"

fun check_low_stock_alerts_loop ::
  "datetime \<Rightarrow> (int \<times> string \<times> int) list \<Rightarrow> session \<Rightarrow> session" where
  "check_low_stock_alerts_loop now [] db = db"
| "check_low_stock_alerts_loop now (row # rest) db =
     check_low_stock_alerts_loop now rest (check_low_stock_alerts_body now row db)"

definition check_low_stock_alerts :: "datetime \<Rightarrow> session \<Rightarrow> session" where
  "check_low_stock_alerts now db =
     db_commit (check_low_stock_alerts_loop now (stock_levels db) db)"

text \<open>
  \<open>check_expiry_alerts\<close>: the inner loop body for one batch of one window. The message
  reads \<open>batch.medicine.name\<close>, which raises when the batch has no medicine.
\<close>

definition check_expiry_alerts_body ::
  "datetime \<Rightarrow> date \<Rightarrow> Batch \<Rightarrow> session \<Rightarrow> exception + session" where
  "check_expiry_alerts_body now today batch db =
     (case existing_batch_alert db (b_id batch) EXPIRY_WARNING of
        Some existing_alert \<Rightarrow> Inr db
      | None \<Rightarrow>
          let expiry_date_only = date_of (b_expiry_date batch);
              days_until_expiry = expiry_date_only - today
          in if days_until_expiry \<ge> 0 then
               (case get_medicine db (b_medicine_id batch) of
                  None \<Rightarrow> Inl AttributeError
                | Some medicine \<Rightarrow>
                    Inr (add_alert
                      (new_alert EXPIRY_WARNING (Some (b_medicine_id batch)) (Some (b_id batch))
                         (ExpiresInMessage (m_name medicine) (b_batch_number batch)
                            days_until_expiry)
                         (if days_until_expiry \<le> 30 then ''high'' else ''medium'') now) db))
             else Inr db)"

fun check_expiry_alerts_batches ::
  "datetime \<Rightarrow> date \<Rightarrow> Batch list \<Rightarrow> session \<Rightarrow> exception + session" where
  "check_expiry_alerts_batches now today [] db = Inr db"
| "check_expiry_alerts_batches now today (batch # rest) db =
     (case check_expiry_alerts_body now today batch db of
        Inl e \<Rightarrow> Inl e
      | Inr db1 \<Rightarrow> check_expiry_alerts_batches now today rest db1)"

definition expiring_batches :: "session \<Rightarrow> datetime \<Rightarrow> Batch list" where
  "expiring_batches db threshold_datetime =
     filter (\<lambda>b. b_expiry_date b \<le> threshold_datetime \<and> \<not> b_is_expired b \<and> b_quantity b > 0)
       (batches (working db))"

fun check_expiry_alerts_windows ::
  "datetime \<Rightarrow> date \<Rightarrow> int list \<Rightarrow> session \<Rightarrow> exception + session" where
  "check_expiry_alerts_windows now today [] db = Inr db"
| "check_expiry_alerts_windows now today (days # rest) db =
     (let threshold_date = today + days;
          threshold_datetime = combine_min_time threshold_date
      in case check_expiry_alerts_batches now today
                (expiring_batches db threshold_datetime) db of
           Inl e \<Rightarrow> Inl e
         | Inr db1 \<Rightarrow> check_expiry_alerts_windows now today rest db1)"

definition check_expiry_alerts :: "datetime \<Rightarrow> session \<Rightarrow> exception + session" where
  "check_expiry_alerts now db =
     (let today = date_of now
      in case check_expiry_alerts_windows now today EXPIRY_ALERT_DAYS db of
           Inl e \<Rightarrow> Inl e
         | Inr db1 \<Rightarrow> Inr (db_commit db1))"

section \<open>Demand forecast (ml_models/forecasting.py)\<close>

text \<open>
  \<open>int(x)\<close> truncates towards zero; \<open>round(x, 2)\<close> rounds to two decimals, a tie going to
  the even neighbour.
\<close>

definition py_int :: "real \<Rightarrow> int" where
  "py_int x = (if 0 \<le> x then \<lfloor>x\<rfloor> else \<lceil>x\<rceil>)"

definition py_round2 :: "real \<Rightarrow> real" where
  "py_round2 x =
     (let y = x * 100; f = \<lfloor>y\<rfloor>; d = y - of_int f
      in of_int (if d < 1 / 2 then f
                 else if 1 / 2 < d then f + 1
                 else if even f then f else f + 1) / 100)"

text \<open>The \<open>reasoning\<close> text, kept as the values it is formatted from.\<close>

datatype reasoning =
    ReasonMedicineNotFound
  | ReasonNoHistory
  | ReasonBasedOn nat int real int real

record forecast =
  forecasted_demand :: real
  confidence_score :: real
  reorder_point :: int
  recommended_quantity :: int
  forecast_reasoning :: reasoning

text \<open>The \<open>OUT\<close> transactions of the medicine from the cut-off date on.\<close>

definition out_transactions :: "session \<Rightarrow> int \<Rightarrow> datetime \<Rightarrow> InventoryTransaction list" where
  "out_transactions db medicine_id cutoff_date =
     filter (\<lambda>t. t_medicine_id t = medicine_id \<and> t_transaction_type t = OUT \<and>
                  t_created_at t \<ge> cutoff_date)
       (transactions (working db))"

text \<open>
  The function reads the clock twice: \<open>now\<close> for the cut-off date and \<open>now2\<close> for
  \<open>days_covered\<close>.
\<close>

definition calculate_demand_forecast ::
  "session \<Rightarrow> int \<Rightarrow> int \<Rightarrow> datetime \<Rightarrow> datetime \<Rightarrow> forecast" where
  "calculate_demand_forecast db medicine_id horizon_days now now2 =
     (case get_medicine db medicine_id of
        None \<Rightarrow>
          \<lparr>forecasted_demand = 0, confidence_score = 0, reorder_point = 0,
           recommended_quantity = 0, forecast_reasoning = ReasonMedicineNotFound\<rparr>
      | Some medicine \<Rightarrow>
          let cutoff_date = now - timedelta_days 90;
              txns = out_transactions db medicine_id cutoff_date
          in if txns = [] then
               let current_stock = total_stock db medicine
               in \<lparr>forecasted_demand = of_int current_stock * (3 / 10),
                   confidence_score = 3 / 10,
                   reorder_point = max 10 (py_int (of_int current_stock * (2 / 10))),
                   recommended_quantity = max 20 (py_int (of_int current_stock * (5 / 10))),
                   forecast_reasoning = ReasonNoHistory\<rparr>
             else
               let total_demand = sum_list (map t_quantity txns);
                   days_covered = (now2 - cutoff_date) div 86400;
                   avg_daily_demand =
                     (if days_covered > 0 then of_int total_demand / of_int days_covered
                      else 0);
                   forecasted = avg_daily_demand * of_int horizon_days;
                   confidence = min (95 / 100) (5 / 10 + of_nat (length txns) / 100);
                   lead_time_days = 7;
                   safety_stock_multiplier = 15 / 10;
                   reorder = py_int (avg_daily_demand * lead_time_days * safety_stock_multiplier);
                   current_stock = total_stock db medicine;
                   recommended =
                     max (py_int (forecasted * (3 / 10)))
                         (if current_stock < reorder then reorder - current_stock else 0)
               in \<lparr>forecasted_demand = py_round2 forecasted,
                   confidence_score = py_round2 confidence,
                   reorder_point = max 1 reorder,
                   recommended_quantity = max 0 recommended,
                   forecast_reasoning =
                     ReasonBasedOn (length txns) days_covered avg_daily_demand horizon_days
                       forecasted\<rparr>)"

section \<open>Waste analytics (routers/waste.py, get_waste_analytics)\<close>

record bucket =
  bk_quantity :: int
  bk_value :: real
  bk_count :: nat

record waste_total =
  tot_quantity :: int
  tot_value :: real
  wastage_rate_percent :: real

record waste_analytics =
  period_start :: datetime
  period_end :: datetime
  expired :: bucket
  damaged :: bucket
  recalled :: bucket
  returned :: bucket
  total :: waste_total

text \<open>\<open>b.quantity * (b.medicine.mrp or 0)\<close>; reading \<open>b.medicine.mrp\<close> raises without a medicine.\<close>

definition batch_value :: "session \<Rightarrow> Batch \<Rightarrow> exception + real" where
  "batch_value db b =
     (case get_medicine db (b_medicine_id b) of
        None \<Rightarrow> Inl AttributeError
      | Some medicine \<Rightarrow>
          Inr (of_int (b_quantity b) * (case m_mrp medicine of None \<Rightarrow> 0 | Some p \<Rightarrow> p)))"

fun sum_batch_values :: "session \<Rightarrow> Batch list \<Rightarrow> exception + real" where
  "sum_batch_values db [] = Inr 0"
| "sum_batch_values db (b # bs) =
     (case batch_value db b of
        Inl e \<Rightarrow> Inl e
      | Inr v \<Rightarrow>
          (case sum_batch_values db bs of
             Inl e \<Rightarrow> Inl e
           | Inr w \<Rightarrow> Inr (v + w)))"

text \<open>
  \<open>if category: q = q.join(Medicine).filter(Medicine.category == category)\<close>: an empty
  string is falsy, and the inner join drops a batch without a medicine.
\<close>

definition in_category :: "session \<Rightarrow> string option \<Rightarrow> Batch \<Rightarrow> bool" where
  "in_category db category b =
     (case category of
        None \<Rightarrow> True
      | Some c \<Rightarrow>
          if c = [] then True
          else (case get_medicine db (b_medicine_id b) of
                  None \<Rightarrow> False
                | Some medicine \<Rightarrow> m_category medicine = Some c))"

definition updated_between :: "datetime \<Rightarrow> datetime \<Rightarrow> Batch \<Rightarrow> bool" where
  "updated_between start_date end_date b =
     (case b_updated_at b of
        None \<Rightarrow> False
      | Some t \<Rightarrow> start_date \<le> t \<and> t \<le> end_date)"

definition expired_batches ::
  "session \<Rightarrow> datetime \<Rightarrow> datetime \<Rightarrow> string option \<Rightarrow> Batch list" where
  "expired_batches db start_date end_date category =
     filter (\<lambda>b. b_is_expired b \<and> start_date \<le> b_expiry_date b \<and> b_expiry_date b \<le> end_date \<and>
                  in_category db category b)
       (batches (working db))"

definition damaged_batches ::
  "session \<Rightarrow> datetime \<Rightarrow> datetime \<Rightarrow> string option \<Rightarrow> Batch list" where
  "damaged_batches db start_date end_date category =
     filter (\<lambda>b. b_is_damaged b \<and> updated_between start_date end_date b \<and>
                  in_category db category b)
       (batches (working db))"

definition recalled_batches ::
  "session \<Rightarrow> datetime \<Rightarrow> datetime \<Rightarrow> string option \<Rightarrow> Batch list" where
  "recalled_batches db start_date end_date category =
     filter (\<lambda>b. b_is_recalled b \<and> updated_between start_date end_date b \<and>
                  in_category db category b)
       (batches (working db))"

definition returned_batches ::
  "session \<Rightarrow> datetime \<Rightarrow> datetime \<Rightarrow> string option \<Rightarrow> Batch list" where
  "returned_batches db start_date end_date category =
     filter (\<lambda>b. b_is_returned b \<and> updated_between start_date end_date b \<and>
                  in_category db category b)
       (batches (working db))"

text \<open>
  \<open>func.sum(Batch.quantity * Medicine.mrp)\<close> over the join, for batches that are neither
  expired nor damaged nor recalled, \<open>or 0\<close>: a row whose \<open>mrp\<close> is NULL does not count in
  the SQL sum, a batch without a medicine is not in the join.
\<close>

definition sellable_row_value :: "session \<Rightarrow> Batch \<Rightarrow> real option" where
  "sellable_row_value db b =
     (case get_medicine db (b_medicine_id b) of
        None \<Rightarrow> None
      | Some medicine \<Rightarrow>
          (case m_mrp medicine of
             None \<Rightarrow> None
           | Some p \<Rightarrow> Some (of_int (b_quantity b) * p)))"

definition total_inventory_value :: "session \<Rightarrow> real" where
  "total_inventory_value db =
     sum_list (List.map_filter (sellable_row_value db)
       (filter (\<lambda>b. \<not> b_is_expired b \<and> \<not> b_is_damaged b \<and> \<not> b_is_recalled b)
          (batches (working db))))"

definition make_bucket :: "Batch list \<Rightarrow> real \<Rightarrow> bucket" where
  "make_bucket bs v =
     \<lparr>bk_quantity = sum_list (map b_quantity bs), bk_value = v, bk_count = length bs\<rparr>"

definition get_waste_analytics ::
  "datetime option \<Rightarrow> datetime option \<Rightarrow> string option \<Rightarrow> datetime \<Rightarrow> session \<Rightarrow>
     exception + waste_analytics" where
  "get_waste_analytics start_date end_date category now db =
     (let end_date1 = (case end_date of None \<Rightarrow> now | Some e \<Rightarrow> e);
          start_date1 = (case start_date of None \<Rightarrow> end_date1 - timedelta_days 90 | Some s \<Rightarrow> s);
          expired_bs = expired_batches db start_date1 end_date1 category;
          damaged_bs = damaged_batches db start_date1 end_date1 category;
          recalled_bs = recalled_batches db start_date1 end_date1 category;
          returned_bs = returned_batches db start_date1 end_date1 category
      in case sum_batch_values db expired_bs of
           Inl e \<Rightarrow> Inl e
         | Inr expired_value \<Rightarrow>
       (case sum_batch_values db damaged_bs of
           Inl e \<Rightarrow> Inl e
         | Inr damaged_value \<Rightarrow>
       (case sum_batch_values db recalled_bs of
           Inl e \<Rightarrow> Inl e
         | Inr recalled_value \<Rightarrow>
       (case sum_batch_values db returned_bs of
           Inl e \<Rightarrow> Inl e
         | Inr returned_value \<Rightarrow>
             let total_waste_value = expired_value + damaged_value + recalled_value;
                 total_waste_quantity =
                   sum_list (map b_quantity expired_bs) + sum_list (map b_quantity damaged_bs) +
                   sum_list (map b_quantity recalled_bs) + sum_list (map b_quantity returned_bs);
                 inventory_value = total_inventory_value db;
                 wastage_rate =
                   (if inventory_value > 0 then total_waste_value / inventory_value * 100
                    else 0)
             in Inr \<lparr>period_start = start_date1,
                     period_end = end_date1,
                     expired = make_bucket expired_bs expired_value,
                     damaged = make_bucket damaged_bs damaged_value,
                     recalled = make_bucket recalled_bs recalled_value,
                     returned = make_bucket returned_bs returned_value,
                     total = \<lparr>tot_quantity = total_waste_quantity,
                              tot_value = total_waste_value,
                              wastage_rate_percent = py_round2 wastage_rate\<rparr>\<rparr>))))"

section \<open>Stock notions and scenario data\<close>

text \<open>
  Raw available stock as the specification defines it and as the stock-level query of
  \<open>check_low_stock_alerts\<close> computes it: the quantities of the batches with
  \<open>quantity > 0\<close> that are not expired.
\<close>

definition raw_available_stock :: "session \<Rightarrow> Medicine \<Rightarrow> int" where
  "raw_available_stock db medicine = sum_list (map b_quantity (stocked_batches db medicine))"

definition nonnegative_quantities :: "Batch list \<Rightarrow> bool" where
  "nonnegative_quantities bs = list_all (\<lambda>b. 0 \<le> b_quantity b) bs"

text \<open>Every batch of the table has its medicine (the foreign key is honoured).\<close>

definition batches_have_medicine :: "session \<Rightarrow> bool" where
  "batches_have_medicine db =
     list_all (\<lambda>b. get_medicine db (b_medicine_id b) \<noteq> None) (batches (working db))"

text \<open>
  The scenario of the specification: medicine AMX500 with one batch, read on day 1000;
  the batch expires 45 days later.
\<close>

definition day1000 :: datetime where
  "day1000 = 1000 * 86400"

definition amx500 :: Medicine where
  "amx500 = \<lparr>m_id = 1, m_sku = ''AMX500'', m_name = ''Amoxicillin 500'',
             m_category = Some ''Antibiotics'', m_mrp = Some 12, m_is_active = True\<rparr>"

definition amx500_batch :: "int \<Rightarrow> Batch" where
  "amx500_batch q =
     \<lparr>b_id = 1, b_medicine_id = 1, b_batch_number = ''B001'', b_quantity = q,
      b_expiry_date = 1045 * 86400, b_is_expired = False, b_is_damaged = False,
      b_is_recalled = False, b_is_returned = False, b_updated_at = None\<rparr>"

definition amx500_tables :: "int \<Rightarrow> tables" where
  "amx500_tables q =
     \<lparr>medicines = [amx500], batches = [amx500_batch q], transactions = [], alerts = []\<rparr>"

text \<open>The same medicine with no batch at all.\<close>

definition no_batch_tables :: tables where
  "no_batch_tables = \<lparr>medicines = [amx500], batches = [], transactions = [], alerts = []\<rparr>"

text \<open>A request of the given type and quantity on batch 1 of medicine 1.\<close>

definition request :: "TransactionType \<Rightarrow> int \<Rightarrow> TransactionCreate" where
  "request ty q =
     \<lparr>tc_medicine_id = 1, tc_batch_id = Some 1, tc_transaction_type = ty, tc_quantity = q,
      tc_unit_price = None, tc_notes = None\<rparr>"

text \<open>One open low-stock alert on medicine 1.\<close>

definition open_alert_tables :: tables where
  "open_alert_tables =
     \<lparr>medicines = [amx500], batches = [amx500_batch 5], transactions = [],
      alerts = [(new_alert LOW_STOCK (Some 1) None
                  (LowStockMessage ''Amoxicillin 500'' ''AMX500'' 5) ''high'' 0)\<lparr>a_id := 1\<rparr>]\<rparr>"

text \<open>The ledger after 30 units of the batch of 100 were sold on day 1000.\<close>

definition amx500_sale :: InventoryTransaction where
  "amx500_sale =
     \<lparr>t_id = 1, t_medicine_id = 1, t_batch_id = Some 1, t_transaction_type = OUT,
      t_quantity = 30, t_unit_price = None, t_notes = None, t_created_by = Some 7,
      t_created_at = day1000\<rparr>"

definition sold_tables :: tables where
  "sold_tables =
     \<lparr>medicines = [amx500], batches = [amx500_batch 70], transactions = [amx500_sale],
      alerts = []\<rparr>"

text \<open>
  Five batches of AMX500 (price 12): 10 units expired on day 950, 5 damaged, 2 recalled
  and 7 returned, each touched on day 990, and 100 units on the shelf.
\<close>

definition waste_batch :: "int \<Rightarrow> int \<Rightarrow> bool \<Rightarrow> bool \<Rightarrow> bool \<Rightarrow> bool \<Rightarrow> Batch" where
  "waste_batch i q ex dm rc rt =
     \<lparr>b_id = i, b_medicine_id = 1, b_batch_number = ''W'', b_quantity = q,
      b_expiry_date = (if ex then 950 * 86400 else 1045 * 86400), b_is_expired = ex,
      b_is_damaged = dm, b_is_recalled = rc, b_is_returned = rt,
      b_updated_at = Some (990 * 86400)\<rparr>"

definition waste_tables :: tables where
  "waste_tables =
     \<lparr>medicines = [amx500],
      batches = [waste_batch 1 10 True False False False,
                 waste_batch 2 5 False True False False,
                 waste_batch 3 2 False False True False,
                 waste_batch 4 7 False False False True,
                 waste_batch 5 100 False False False False],
      transactions = [], alerts = []\<rparr>"

section \<open>Auxiliary facts\<close>

lemmas session_defs = open_session_def db_commit_def get_medicine_def get_batch_def
  get_alert_def set_batch_def set_alert_def add_transaction_def add_alert_def
  inserted_transaction_def visible_alerts_def next_id_def touch_def

lemmas scenario_defs = day1000_def amx500_def amx500_batch_def amx500_tables_def
  no_batch_tables_def request_def open_alert_tables_def new_alert_def amx500_sale_def
  sold_tables_def waste_batch_def waste_tables_def

lemma touch_id: "b_id (touch now old new) = b_id new"
  by (simp add: touch_def)

lemma touch_quantity: "b_quantity (touch now old new) = b_quantity new"
  by (simp add: touch_def)

lemma touch_is_expired: "b_is_expired (touch now old new) = b_is_expired new"
  by (simp add: touch_def)

lemma touch_is_damaged: "b_is_damaged (touch now old new) = b_is_damaged new"
  by (simp add: touch_def)

lemma find_key: "find P xs = Some x \<Longrightarrow> P x"
  by (auto simp: find_Some_iff)

lemma find_replace_batch_same:
  "find (\<lambda>b. b_id b = i) bs = Some b \<Longrightarrow> b_id (f b) = i \<Longrightarrow>
   find (\<lambda>b. b_id b = i) (replace_batch i f bs) = Some (f b)"
  by (induction bs) (auto split: if_splits)

lemma find_replace_batch_other:
  "j \<noteq> i \<Longrightarrow> (\<And>b. b_id b = i \<Longrightarrow> b_id (f b) = i) \<Longrightarrow>
   find (\<lambda>b. b_id b = j) (replace_batch i f bs) = find (\<lambda>b. b_id b = j) bs"
  by (induction bs) (auto split: if_splits)

lemma find_replace_alert_same:
  "find (\<lambda>a. a_id a = i) xs = Some a \<Longrightarrow> a_id (f a) = i \<Longrightarrow>
   find (\<lambda>a. a_id a = i) (replace_alert i f xs) = Some (f a)"
  by (induction xs) (auto split: if_splits)

lemma find_replace_alert_other:
  "j \<noteq> i \<Longrightarrow> (\<And>a. a_id a = i \<Longrightarrow> a_id (f a) = i) \<Longrightarrow>
   find (\<lambda>a. a_id a = j) (replace_alert i f xs) = find (\<lambda>a. a_id a = j) xs"
  by (induction xs) (auto split: if_splits)

section \<open>Transaction processor\<close>

text \<open>
  C1. An \<open>OUT\<close> transaction that names an existing batch of an existing medicine, in a
  fresh session over the committed tables \<open>t\<close>: when the batch holds less than the
  requested quantity the call fails with \<open>InsufficientStock\<close> and the session, committed
  tables included, is returned as it was. Otherwise the call succeeds, the named batch
  holds exactly \<open>quantity\<close> less, every other batch is as before, and the committed
  transaction table is the old one followed by exactly one row, of type \<open>OUT\<close> with the
  requested quantity; the new quantity and the new row reach the committed tables in the
  single \<open>db.commit()\<close>, after which nothing is left pending.
\<close>

theorem create_transaction_out:
  assumes med: "get_medicine (open_session af t) (tc_medicine_id tc) = Some m"
    and ty: "tc_transaction_type tc = OUT"
    and bid: "tc_batch_id tc = Some bid" "bid \<noteq> 0"
    and bat: "get_batch (open_session af t) bid = Some b"
  shows "(b_quantity b < tc_quantity tc \<longrightarrow>
            create_transaction tc u now (open_session af t) =
              (Inl InsufficientStock, open_session af t)) \<and>
         (\<not> b_quantity b < tc_quantity tc \<longrightarrow>
            (\<exists>row db' b'.
               create_transaction tc u now (open_session af t) = (Inr row, db') \<and>
               find (\<lambda>x. b_id x = bid) (batches (persisted db')) = Some b' \<and>
               b_quantity b' = b_quantity b - tc_quantity tc \<and>
               (\<forall>j. j \<noteq> bid \<longrightarrow> find (\<lambda>x. b_id x = j) (batches (persisted db')) =
                                    find (\<lambda>x. b_id x = j) (batches t)) \<and>
               transactions (persisted db') = transactions t @ [row] \<and>
               t_transaction_type row = OUT \<and>
               t_quantity row = tc_quantity tc \<and>
               t_batch_id row = Some bid \<and>
               medicines (persisted db') = medicines t \<and>
               alerts (persisted db') = alerts t \<and>
               working db' = persisted db'))"
proof -
  let ?f = "\<lambda>x. touch now x (x\<lparr>b_quantity := b_quantity x - tc_quantity tc\<rparr>)"
  have fb: "find (\<lambda>x. b_id x = bid) (batches t) = Some b"
    using bat by (simp add: get_batch_def open_session_def)
  then have idb: "b_id b = bid"
    by (rule find_key)
  have same: "find (\<lambda>x. b_id x = bid) (replace_batch bid ?f (batches t)) = Some (?f b)"
    using fb idb by (intro find_replace_batch_same) (simp_all add: touch_id)
  have other: "\<And>j. j \<noteq> bid \<Longrightarrow>
      find (\<lambda>x. b_id x = j) (replace_batch bid ?f (batches t)) =
      find (\<lambda>x. b_id x = j) (batches t)"
    by (rule find_replace_batch_other) (simp_all add: touch_id)
  show ?thesis
    using med ty bid bat same other
    by (auto simp: create_transaction_def update_batch_quantity_def Let_def get_batch_def
        get_medicine_def open_session_def db_commit_def add_transaction_def set_batch_def
        inserted_transaction_def transaction_row_def touch_quantity)
qed

text \<open>
  The scenario of the specification: 30 units out of a batch of 100 leave 70 and one
  \<open>OUT\<close> row of 30; 130 units are refused and nothing changes.
\<close>

theorem create_transaction_out_witness:
  "get_medicine (open_session True (amx500_tables 100)) (tc_medicine_id (request OUT 30))
     = Some amx500 \<and>
   tc_transaction_type (request OUT 30) = OUT \<and>
   tc_batch_id (request OUT 30) = Some 1 \<and> (1::int) \<noteq> 0 \<and>
   get_batch (open_session True (amx500_tables 100)) 1 = Some (amx500_batch 100) \<and>
   (\<exists>row db' b'.
      create_transaction (request OUT 30) 7 day1000 (open_session True (amx500_tables 100))
        = (Inr row, db') \<and>
      find (\<lambda>x. b_id x = 1) (batches (persisted db')) = Some b' \<and>
      b_quantity b' = 70 \<and>
      transactions (persisted db') = [row] \<and>
      t_transaction_type row = OUT \<and> t_quantity row = 30) \<and>
   create_transaction (request OUT 130) 7 day1000 (open_session True (amx500_tables 100))
     = (Inl InsufficientStock, open_session True (amx500_tables 100))"
proof -
  have h1: "get_medicine (open_session True (amx500_tables 100))
      (tc_medicine_id (request OUT 30)) = Some amx500"
    by (simp add: session_defs scenario_defs)
  have h1': "get_medicine (open_session True (amx500_tables 100))
      (tc_medicine_id (request OUT 130)) = Some amx500"
    by (simp add: session_defs scenario_defs)
  have h2: "tc_transaction_type (request OUT q) = OUT" for q
    by (simp add: request_def)
  have h3: "tc_batch_id (request OUT q) = Some 1" for q
    by (simp add: request_def)
  have h4: "(1::int) \<noteq> 0"
    by simp
  have h5: "get_batch (open_session True (amx500_tables 100)) 1 = Some (amx500_batch 100)"
    by (simp add: session_defs scenario_defs)
  have q: "\<not> b_quantity (amx500_batch 100) < tc_quantity (request OUT 30)"
    by (simp add: request_def amx500_batch_def)
  from create_transaction_out [OF h1 h2 h3 h4 h5, of 7 day1000] q
  obtain row db' b' where
    r: "create_transaction (request OUT 30) 7 day1000 (open_session True (amx500_tables 100))
          = (Inr row, db')"
      "find (\<lambda>x. b_id x = 1) (batches (persisted db')) = Some b'"
      "b_quantity b' = b_quantity (amx500_batch 100) - tc_quantity (request OUT 30)"
      "transactions (persisted db') = transactions (amx500_tables 100) @ [row]"
      "t_transaction_type row = OUT"
      "t_quantity row = tc_quantity (request OUT 30)"
    by blast
  have ok: "\<exists>row db' b'.
      create_transaction (request OUT 30) 7 day1000 (open_session True (amx500_tables 100))
        = (Inr row, db') \<and>
      find (\<lambda>x. b_id x = 1) (batches (persisted db')) = Some b' \<and>
      b_quantity b' = 70 \<and>
      transactions (persisted db') = [row] \<and>
      t_transaction_type row = OUT \<and> t_quantity row = 30"
    using r by (simp add: request_def amx500_batch_def amx500_tables_def)
  have ko: "create_transaction (request OUT 130) 7 day1000
      (open_session True (amx500_tables 100))
        = (Inl InsufficientStock, open_session True (amx500_tables 100))"
    using create_transaction_out [OF h1' h2 h3 h4 h5, of 7 day1000]
    by (simp add: request_def amx500_batch_def)
  show ?thesis
    using h1 h2 h3 h5 ok ko by simp
qed

text \<open>
  C8. The transaction processor does not check the sign of the quantity: an \<open>IN\<close>
  request of \<open>-5\<close> units on a batch of 3 is accepted, the committed batch quantity
  becomes \<open>-2\<close> and the transaction row of \<open>-5\<close> is appended; an \<open>OUT\<close> request of
  \<open>-5\<close> is accepted as well and raises the batch to 8.
\<close>

theorem create_transaction_accepts_negative_quantity:
  "fst (create_transaction (request IN (-5)) 7 day1000 (open_session True (amx500_tables 3)))
     = Inr \<lparr>t_id = 1, t_medicine_id = 1, t_batch_id = Some 1, t_transaction_type = IN,
            t_quantity = -5, t_unit_price = None, t_notes = None, t_created_by = Some 7,
            t_created_at = day1000\<rparr> \<and>
   map b_quantity (batches (persisted (snd
     (create_transaction (request IN (-5)) 7 day1000 (open_session True (amx500_tables 3))))))
     = [-2] \<and>
   map t_quantity (transactions (persisted (snd
     (create_transaction (request IN (-5)) 7 day1000 (open_session True (amx500_tables 3))))))
     = [-5] \<and>
   map b_quantity (batches (persisted (snd
     (create_transaction (request OUT (-5)) 7 day1000 (open_session True (amx500_tables 3))))))
     = [8]"
  by (simp add: create_transaction_def update_batch_quantity_def transaction_row_def Let_def
      session_defs scenario_defs)

section \<open>Disposal\<close>

text \<open>
  C4. Marking an existing batch as damaged, in a fresh session over the committed tables
  \<open>t\<close>: a quantity above the batch's quantity fails with \<open>ExceedsAvailable\<close> and leaves
  the session, and so \<open>batch.quantity\<close>, unchanged. Otherwise the batch holds exactly
  \<open>quantity\<close> less and has \<open>is_damaged\<close> set, the other batches are as before, and the
  committed transaction table is the old one followed by one \<open>DAMAGED\<close> row on this
  batch that carries the given quantity.
\<close>

theorem mark_batch_damaged_spec:
  assumes bat: "get_batch (open_session af t) bid = Some b"
  shows "(quantity > b_quantity b \<longrightarrow>
            mark_batch_damaged bid quantity u now (open_session af t) =
              (Inl ExceedsAvailable, open_session af t)) \<and>
         (\<not> quantity > b_quantity b \<longrightarrow>
            (\<exists>msg db' b' row.
               mark_batch_damaged bid quantity u now (open_session af t) = (Inr msg, db') \<and>
               find (\<lambda>x. b_id x = bid) (batches (persisted db')) = Some b' \<and>
               b_quantity b' = b_quantity b - quantity \<and>
               b_is_damaged b' \<and>
               (\<forall>j. j \<noteq> bid \<longrightarrow> find (\<lambda>x. b_id x = j) (batches (persisted db')) =
                                    find (\<lambda>x. b_id x = j) (batches t)) \<and>
               transactions (persisted db') = transactions t @ [row] \<and>
               t_transaction_type row = DAMAGED \<and>
               t_quantity row = quantity \<and>
               t_batch_id row = Some bid \<and>
               t_medicine_id row = b_medicine_id b))"
proof -
  let ?b2 = "b\<lparr>b_is_damaged := True, b_quantity := b_quantity b - quantity\<rparr>"
  let ?f = "\<lambda>x. touch now x ?b2"
  have fb: "find (\<lambda>x. b_id x = bid) (batches t) = Some b"
    using bat by (simp add: get_batch_def open_session_def)
  then have idb: "b_id b = bid"
    by (rule find_key)
  have same: "find (\<lambda>x. b_id x = bid) (replace_batch bid ?f (batches t)) = Some (?f b)"
    using fb idb by (intro find_replace_batch_same) (simp_all add: touch_id)
  have other: "\<And>j. j \<noteq> bid \<Longrightarrow>
      find (\<lambda>x. b_id x = j) (replace_batch bid ?f (batches t)) =
      find (\<lambda>x. b_id x = j) (batches t)"
    using idb by (intro find_replace_batch_other) (simp_all add: touch_id)
  show ?thesis
    using bat same other idb
    by (auto simp: mark_batch_damaged_def Let_def get_batch_def open_session_def db_commit_def
        add_transaction_def set_batch_def inserted_transaction_def touch_quantity
        touch_is_damaged)
qed

text \<open>
  The scenario of the specification: 130 damaged units on a batch of 100 are refused and
  the batch is untouched; 30 damaged units leave 70.
\<close>

theorem mark_batch_damaged_spec_witness:
  "get_batch (open_session True (amx500_tables 100)) 1 = Some (amx500_batch 100) \<and>
   mark_batch_damaged 1 130 7 day1000 (open_session True (amx500_tables 100))
     = (Inl ExceedsAvailable, open_session True (amx500_tables 100)) \<and>
   (\<exists>msg db' b' row.
      mark_batch_damaged 1 30 7 day1000 (open_session True (amx500_tables 100))
        = (Inr msg, db') \<and>
      find (\<lambda>x. b_id x = 1) (batches (persisted db')) = Some b' \<and>
      b_quantity b' = 70 \<and> b_is_damaged b' \<and>
      transactions (persisted db') = [row] \<and>
      t_transaction_type row = DAMAGED \<and> t_quantity row = 30)"
proof -
  have h: "get_batch (open_session True (amx500_tables 100)) 1 = Some (amx500_batch 100)"
    by (simp add: session_defs scenario_defs)
  have ko: "mark_batch_damaged 1 130 7 day1000 (open_session True (amx500_tables 100))
      = (Inl ExceedsAvailable, open_session True (amx500_tables 100))"
    using mark_batch_damaged_spec [OF h, of 130 7 day1000]
    by (simp add: amx500_batch_def)
  have q: "\<not> 30 > b_quantity (amx500_batch 100)"
    by (simp add: amx500_batch_def)
  from mark_batch_damaged_spec [OF h, of 30 7 day1000] q
  obtain msg db' b' row where
    r: "mark_batch_damaged 1 30 7 day1000 (open_session True (amx500_tables 100))
          = (Inr msg, db')"
      "find (\<lambda>x. b_id x = 1) (batches (persisted db')) = Some b'"
      "b_quantity b' = b_quantity (amx500_batch 100) - 30"
      "b_is_damaged b'"
      "transactions (persisted db') = transactions (amx500_tables 100) @ [row]"
      "t_transaction_type row = DAMAGED"
      "t_quantity row = 30"
    by blast
  have ok: "\<exists>msg db' b' row.
      mark_batch_damaged 1 30 7 day1000 (open_session True (amx500_tables 100))
        = (Inr msg, db') \<and>
      find (\<lambda>x. b_id x = 1) (batches (persisted db')) = Some b' \<and>
      b_quantity b' = 70 \<and> b_is_damaged b' \<and>
      transactions (persisted db') = [row] \<and>
      t_transaction_type row = DAMAGED \<and> t_quantity row = 30"
    using r by (simp add: amx500_batch_def amx500_tables_def)
  show ?thesis
    using h ko ok by simp
qed

text \<open>
  C10. Marking an existing batch as expired always succeeds: afterwards the batch has
  \<open>is_expired\<close> set and quantity 0, the other batches are as before, and the committed
  transaction table is the old one followed by exactly one \<open>EXPIRED\<close> row on this batch
  whose quantity is 0, whatever the batch held, because the row reads \<open>batch.quantity\<close>
  after the assignment of 0.
\<close>

theorem mark_batch_expired_spec:
  assumes bat: "get_batch (open_session af t) bid = Some b"
  shows "\<exists>msg db' b' row.
           mark_batch_expired bid u now (open_session af t) = (Inr msg, db') \<and>
           find (\<lambda>x. b_id x = bid) (batches (persisted db')) = Some b' \<and>
           b_is_expired b' \<and>
           b_quantity b' = 0 \<and>
           (\<forall>j. j \<noteq> bid \<longrightarrow> find (\<lambda>x. b_id x = j) (batches (persisted db')) =
                                find (\<lambda>x. b_id x = j) (batches t)) \<and>
           transactions (persisted db') = transactions t @ [row] \<and>
           t_transaction_type row = EXPIRED \<and>
           t_quantity row = 0 \<and>
           t_batch_id row = Some bid \<and>
           t_medicine_id row = b_medicine_id b"
proof -
  let ?b2 = "b\<lparr>b_is_expired := True, b_quantity := 0\<rparr>"
  let ?f = "\<lambda>x. touch now x ?b2"
  have fb: "find (\<lambda>x. b_id x = bid) (batches t) = Some b"
    using bat by (simp add: get_batch_def open_session_def)
  then have idb: "b_id b = bid"
    by (rule find_key)
  have same: "find (\<lambda>x. b_id x = bid) (replace_batch bid ?f (batches t)) = Some (?f b)"
    using fb idb by (intro find_replace_batch_same) (simp_all add: touch_id)
  have other: "\<And>j. j \<noteq> bid \<Longrightarrow>
      find (\<lambda>x. b_id x = j) (replace_batch bid ?f (batches t)) =
      find (\<lambda>x. b_id x = j) (batches t)"
    using idb by (intro find_replace_batch_other) (simp_all add: touch_id)
  show ?thesis
    using bat same other idb
    by (auto simp: mark_batch_expired_def Let_def get_batch_def open_session_def db_commit_def
        add_transaction_def set_batch_def inserted_transaction_def touch_quantity
        touch_is_expired)
qed

text \<open>A batch of 100 units: the batch ends at 0 and the \<open>EXPIRED\<close> row records 0, not 100.\<close>

theorem mark_batch_expired_spec_witness:
  "get_batch (open_session True (amx500_tables 100)) 1 = Some (amx500_batch 100) \<and>
   b_quantity (amx500_batch 100) = 100 \<and>
   (\<exists>msg db' b' row.
      mark_batch_expired 1 7 day1000 (open_session True (amx500_tables 100)) = (Inr msg, db') \<and>
      find (\<lambda>x. b_id x = 1) (batches (persisted db')) = Some b' \<and>
      b_is_expired b' \<and> b_quantity b' = 0 \<and>
      transactions (persisted db') = [row] \<and>
      t_transaction_type row = EXPIRED \<and> t_quantity row = 0)"
proof -
  have h: "get_batch (open_session True (amx500_tables 100)) 1 = Some (amx500_batch 100)"
    by (simp add: session_defs scenario_defs)
  from mark_batch_expired_spec [OF h, of 7 day1000]
  obtain msg db' b' row where
    r: "mark_batch_expired 1 7 day1000 (open_session True (amx500_tables 100)) = (Inr msg, db')"
      "find (\<lambda>x. b_id x = 1) (batches (persisted db')) = Some b'"
      "b_is_expired b'" "b_quantity b' = 0"
      "transactions (persisted db') = transactions (amx500_tables 100) @ [row]"
      "t_transaction_type row = EXPIRED" "t_quantity row = 0"
    by blast
  have ok: "\<exists>msg db' b' row.
      mark_batch_expired 1 7 day1000 (open_session True (amx500_tables 100)) = (Inr msg, db') \<and>
      find (\<lambda>x. b_id x = 1) (batches (persisted db')) = Some b' \<and>
      b_is_expired b' \<and> b_quantity b' = 0 \<and>
      transactions (persisted db') = [row] \<and>
      t_transaction_type row = EXPIRED \<and> t_quantity row = 0"
    using r by (simp add: amx500_tables_def)
  show ?thesis
    using h ok by (simp add: amx500_batch_def)
qed

section \<open>Alerts\<close>

text \<open>
  C9, as the code has it. Acknowledging an existing alert always succeeds and overwrites
  the acknowledgement: whatever the alert recorded before, afterwards it is acknowledged
  with the calling user as actor and the time of this call as timestamp; its other
  columns and all other alerts are as before.
\<close>

theorem acknowledge_alert_overwrites:
  assumes al: "get_alert (open_session af t) aid = Some a"
  shows "\<exists>db'.
           acknowledge_alert aid u now (open_session af t) = (Inr ''Alert acknowledged'', db') \<and>
           find (\<lambda>x. a_id x = aid) (alerts (persisted db')) =
             Some (a\<lparr>a_is_acknowledged := True, a_acknowledged_by := Some u,
                     a_acknowledged_at := Some now\<rparr>) \<and>
           (\<forall>j. j \<noteq> aid \<longrightarrow> find (\<lambda>x. a_id x = j) (alerts (persisted db')) =
                                find (\<lambda>x. a_id x = j) (alerts t))"
proof -
  let ?a3 = "a\<lparr>a_is_acknowledged := True, a_acknowledged_by := Some u,
               a_acknowledged_at := Some now\<rparr>"
  have fa: "find (\<lambda>x. a_id x = aid) (alerts t) = Some a"
    using al by (simp add: get_alert_def open_session_def)
  then have ida: "a_id a = aid"
    by (rule find_key)
  have same: "find (\<lambda>x. a_id x = aid) (replace_alert aid (\<lambda>_. ?a3) (alerts t)) = Some ?a3"
    using fa ida by (intro find_replace_alert_same) simp_all
  have other: "\<And>j. j \<noteq> aid \<Longrightarrow>
      find (\<lambda>x. a_id x = j) (replace_alert aid (\<lambda>_. ?a3) (alerts t)) =
      find (\<lambda>x. a_id x = j) (alerts t)"
    using ida by (intro find_replace_alert_other) simp_all
  show ?thesis
    using al same other
    by (auto simp: acknowledge_alert_def Let_def get_alert_def open_session_def db_commit_def
        set_alert_def)
qed

text \<open>
  An alert acknowledged by user 8 at time 100 and acknowledged again by user 9 at time
  200 ends with actor 9 and timestamp 200.
\<close>

theorem acknowledge_alert_overwrites_witness:
  "get_alert (open_session True (persisted (snd
       (acknowledge_alert 1 8 100 (open_session True open_alert_tables))))) 1
     = Some ((hd (alerts open_alert_tables))
         \<lparr>a_is_acknowledged := True, a_acknowledged_by := Some 8, a_acknowledged_at := Some 100\<rparr>) \<and>
   (\<exists>db'.
      acknowledge_alert 1 9 200 (open_session True (persisted (snd
          (acknowledge_alert 1 8 100 (open_session True open_alert_tables)))))
        = (Inr ''Alert acknowledged'', db') \<and>
      map a_acknowledged_by (alerts (persisted db')) = [Some 9] \<and>
      map a_acknowledged_at (alerts (persisted db')) = [Some 200])"
proof -
  let ?t1 = "persisted (snd (acknowledge_alert 1 8 100 (open_session True open_alert_tables)))"
  let ?a1 = "(hd (alerts open_alert_tables))
         \<lparr>a_is_acknowledged := True, a_acknowledged_by := Some 8, a_acknowledged_at := Some 100\<rparr>"
  have h: "get_alert (open_session True ?t1) 1 = Some ?a1"
    by (simp add: acknowledge_alert_def Let_def session_defs scenario_defs)
  from acknowledge_alert_overwrites [OF h, of 9 200]
  obtain db' where
    r: "acknowledge_alert 1 9 200 (open_session True ?t1) = (Inr ''Alert acknowledged'', db')"
    by blast
  have ev: "map a_acknowledged_by (alerts (persisted (snd
        (acknowledge_alert 1 9 200 (open_session True ?t1))))) = [Some 9] \<and>
      map a_acknowledged_at (alerts (persisted (snd
        (acknowledge_alert 1 9 200 (open_session True ?t1))))) = [Some 200]"
    by (simp add: acknowledge_alert_def Let_def session_defs scenario_defs)
  have m: "map a_acknowledged_by (alerts (persisted db')) = [Some 9] \<and>
      map a_acknowledged_at (alerts (persisted db')) = [Some 200]"
    using ev r by simp
  have ex: "\<exists>db'.
      acknowledge_alert 1 9 200 (open_session True ?t1) = (Inr ''Alert acknowledged'', db') \<and>
      map a_acknowledged_by (alerts (persisted db')) = [Some 9] \<and>
      map a_acknowledged_at (alerts (persisted db')) = [Some 200]"
    using r m by (intro exI [of _ db'] conjI) simp_all
  from h ex show ?thesis
    by (rule conjI)
qed

text \<open>
  C9, as stated, fails: the second acknowledgement of the same alert, by another user at
  a later time, replaces the recorded actor and timestamp.
\<close>

theorem acknowledge_alert_twice_counterexample:
  "map a_acknowledged_by (alerts (persisted (snd
      (acknowledge_alert 1 8 100 (open_session True open_alert_tables))))) = [Some 8] \<and>
   map a_acknowledged_at (alerts (persisted (snd
      (acknowledge_alert 1 8 100 (open_session True open_alert_tables))))) = [Some 100] \<and>
   fst (acknowledge_alert 1 9 200 (open_session True (persisted (snd
      (acknowledge_alert 1 8 100 (open_session True open_alert_tables))))))
     = Inr ''Alert acknowledged'' \<and>
   map a_acknowledged_by (alerts (persisted (snd
      (acknowledge_alert 1 9 200 (open_session True (persisted (snd
         (acknowledge_alert 1 8 100 (open_session True open_alert_tables))))))))) = [Some 9] \<and>
   map a_acknowledged_at (alerts (persisted (snd
      (acknowledge_alert 1 9 200 (open_session True (persisted (snd
         (acknowledge_alert 1 8 100 (open_session True open_alert_tables))))))))) = [Some 200]"
  by (simp add: acknowledge_alert_def Let_def session_defs scenario_defs)

text \<open>
  C2. The low-stock sweep is not idempotent for a medicine without stock: the alert it
  creates has type \<open>STOCK_OUT\<close>, the check for an open alert looks for \<open>LOW_STOCK\<close>
  only, so a second sweep over the unchanged ledger creates one more alert and leaves two
  open \<open>STOCK_OUT\<close> alerts on the same medicine.
\<close>

theorem check_low_stock_twice_duplicates:
  "fst (check_low_stock day1000 (open_session True no_batch_tables)) = 1 \<and>
   fst (check_low_stock day1000 (open_session True (persisted (snd
     (check_low_stock day1000 (open_session True no_batch_tables)))))) = 1 \<and>
   map a_alert_type (alerts (persisted (snd
     (check_low_stock day1000 (open_session True (persisted (snd
       (check_low_stock day1000 (open_session True no_batch_tables))))))))) =
     [STOCK_OUT, STOCK_OUT] \<and>
   map a_medicine_id (alerts (persisted (snd
     (check_low_stock day1000 (open_session True (persisted (snd
       (check_low_stock day1000 (open_session True no_batch_tables))))))))) =
     [Some 1, Some 1] \<and>
   map a_is_acknowledged (alerts (persisted (snd
     (check_low_stock day1000 (open_session True (persisted (snd
       (check_low_stock day1000 (open_session True no_batch_tables))))))))) =
     [False, False]"
  by (simp add: check_low_stock_def check_low_stock_body_def Let_def total_stock_def
      medicine_batches_def existing_medicine_alert_def session_defs scenario_defs)

text \<open>
  C3. The low-stock rule that runs after an upload, \<open>check_low_stock_alerts\<close>, does not
  grade the alert: for a stock of 5 units it creates a \<open>LOW_STOCK\<close> alert of severity
  medium where \<open>check_low_stock\<close> creates one of severity high, and for a medicine
  without stock (no batch, or a batch of quantity 0) it creates no alert where
  \<open>check_low_stock\<close> creates a critical \<open>STOCK_OUT\<close> alert.
\<close>

theorem check_low_stock_alerts_severity:
  "map a_alert_type (alerts (persisted
     (check_low_stock_alerts day1000 (open_session True (amx500_tables 5))))) = [LOW_STOCK] \<and>
   map a_severity (alerts (persisted
     (check_low_stock_alerts day1000 (open_session True (amx500_tables 5))))) = [''medium''] \<and>
   map a_severity (alerts (persisted (snd
     (check_low_stock day1000 (open_session True (amx500_tables 5)))))) = [''high''] \<and>
   alerts (persisted
     (check_low_stock_alerts day1000 (open_session True no_batch_tables))) = [] \<and>
   alerts (persisted
     (check_low_stock_alerts day1000 (open_session True (amx500_tables 0)))) = [] \<and>
   map a_alert_type (alerts (persisted (snd
     (check_low_stock day1000 (open_session True no_batch_tables))))) = [STOCK_OUT] \<and>
   map a_severity (alerts (persisted (snd
     (check_low_stock day1000 (open_session True no_batch_tables))))) = [''critical'']"
  by (simp add: check_low_stock_alerts_def check_low_stock_alerts_body_def stock_levels_def
      stocked_batches_def check_low_stock_def check_low_stock_body_def Let_def total_stock_def
      medicine_batches_def existing_medicine_alert_def session_defs scenario_defs)

section \<open>The low-stock rule of routers/alerts.py, in general\<close>

lemma find_append_None:
  "find P (xs @ ys) = None \<longleftrightarrow> find P xs = None \<and> find P ys = None"
  by (induction xs) auto

lemma total_stock_frame:
  "batches (working db1) = batches (working db) \<Longrightarrow> total_stock db1 m = total_stock db m"
  by (simp add: total_stock_def medicine_batches_def)

text \<open>
  One turn of the loop changes nothing but the working alert table, to which it appends
  at most one alert, on the medicine of this turn.
\<close>

lemma check_low_stock_body_frame:
  "\<exists>new. persisted (fst (check_low_stock_body now m' (db, n))) = persisted db \<and>
         autoflush (fst (check_low_stock_body now m' (db, n))) = autoflush db \<and>
         batches (working (fst (check_low_stock_body now m' (db, n)))) = batches (working db) \<and>
         alerts (working (fst (check_low_stock_body now m' (db, n)))) =
           alerts (working db) @ new \<and>
         (new = [] \<or> (\<exists>a. new = [a] \<and> a_medicine_id a = Some (m_id m')))"
  by (auto simp: check_low_stock_body_def Let_def add_alert_def new_alert_def
      split: option.splits)

lemma check_low_stock_body_keeps_none:
  assumes none: "existing_medicine_alert db i LOW_STOCK = None"
    and other: "m_id m' \<noteq> i"
  shows "existing_medicine_alert (fst (check_low_stock_body now m' (db, n))) i LOW_STOCK = None"
proof -
  obtain new where f:
    "persisted (fst (check_low_stock_body now m' (db, n))) = persisted db"
    "autoflush (fst (check_low_stock_body now m' (db, n))) = autoflush db"
    "alerts (working (fst (check_low_stock_body now m' (db, n)))) = alerts (working db) @ new"
    "new = [] \<or> (\<exists>a. new = [a] \<and> a_medicine_id a = Some (m_id m'))"
    using check_low_stock_body_frame [of now m' db n] by blast
  show ?thesis
    using none other f
    by (auto simp: existing_medicine_alert_def visible_alerts_def find_append_None)
qed

text \<open>A loop over medicines other than \<open>i\<close> appends no alert on medicine \<open>i\<close>.\<close>

lemma check_low_stock_loop_others:
  "i \<notin> set (map m_id ms) \<Longrightarrow>
   \<exists>new. persisted (fst (check_low_stock_loop now ms (db, n))) = persisted db \<and>
         alerts (working (fst (check_low_stock_loop now ms (db, n)))) =
           alerts (working db) @ new \<and>
         filter (\<lambda>a. a_medicine_id a = Some i) new = []"
proof (induction ms arbitrary: db n)
  case Nil
  show ?case by simp
next
  case (Cons m' ms)
  let ?st = "check_low_stock_body now m' (db, n)"
  have st: "?st = (fst ?st, snd ?st)"
    by simp
  obtain new1 where f:
    "persisted (fst ?st) = persisted db"
    "alerts (working (fst ?st)) = alerts (working db) @ new1"
    "new1 = [] \<or> (\<exists>a. new1 = [a] \<and> a_medicine_id a = Some (m_id m'))"
    using check_low_stock_body_frame [of now m' db n] by blast
  from Cons.prems have i: "m_id m' \<noteq> i" and rest: "i \<notin> set (map m_id ms)"
    by auto
  from Cons.IH [OF rest, of "fst ?st" "snd ?st"]
  obtain new2 where g:
    "persisted (fst (check_low_stock_loop now ms (fst ?st, snd ?st))) = persisted (fst ?st)"
    "alerts (working (fst (check_low_stock_loop now ms (fst ?st, snd ?st)))) =
       alerts (working (fst ?st)) @ new2"
    "filter (\<lambda>a. a_medicine_id a = Some i) new2 = []"
    by blast
  have n1: "filter (\<lambda>a. a_medicine_id a = Some i) new1 = []"
    using f(3) i by auto
  show ?case
    using f g n1
    by (intro exI [of _ "new1 @ new2"]) simp
qed

text \<open>
  The alert the rule creates for a medicine of the given stock.
\<close>

lemma check_low_stock_body_fires:
  assumes none: "existing_medicine_alert db (m_id m) LOW_STOCK = None"
    and low: "total_stock db m < 20"
  shows "\<exists>a. alerts (working (fst (check_low_stock_body now m (db, n)))) =
             alerts (working db) @ [a] \<and>
           persisted (fst (check_low_stock_body now m (db, n))) = persisted db \<and>
           a_medicine_id a = Some (m_id m) \<and>
           a_alert_type a = (if total_stock db m = 0 then STOCK_OUT else LOW_STOCK) \<and>
           a_severity a = (if total_stock db m = 0 then ''critical''
                           else if total_stock db m < 10 then ''high'' else ''medium'') \<and>
           \<not> a_is_acknowledged a"
  using none low
  by (simp add: check_low_stock_body_def Let_def add_alert_def new_alert_def)

lemma check_low_stock_loop_one:
  assumes "distinct (map m_id ms)" and "m \<in> set ms"
    and "existing_medicine_alert db (m_id m) LOW_STOCK = None"
    and "total_stock db m < 20"
  shows "\<exists>new a. persisted (fst (check_low_stock_loop now ms (db, n))) = persisted db \<and>
           alerts (working (fst (check_low_stock_loop now ms (db, n)))) =
             alerts (working db) @ new \<and>
           filter (\<lambda>x. a_medicine_id x = Some (m_id m)) new = [a] \<and>
           a_alert_type a = (if total_stock db m = 0 then STOCK_OUT else LOW_STOCK) \<and>
           a_severity a = (if total_stock db m = 0 then ''critical''
                           else if total_stock db m < 10 then ''high'' else ''medium'') \<and>
           \<not> a_is_acknowledged a"
  using assms
proof (induction ms arbitrary: db n)
  case Nil
  then show ?case by simp
next
  case (Cons m' ms)
  let ?st = "check_low_stock_body now m' (db, n)"
  show ?case
  proof (cases "m' = m")
    case True
    from Cons.prems(1) True have rest: "m_id m \<notin> set (map m_id ms)"
      by simp
    from check_low_stock_body_fires [OF Cons.prems(3) Cons.prems(4), of now n]
    obtain a where a:
      "alerts (working (fst (check_low_stock_body now m (db, n)))) = alerts (working db) @ [a]"
      "persisted (fst (check_low_stock_body now m (db, n))) = persisted db"
      "a_medicine_id a = Some (m_id m)"
      "a_alert_type a = (if total_stock db m = 0 then STOCK_OUT else LOW_STOCK)"
      "a_severity a = (if total_stock db m = 0 then ''critical''
                       else if total_stock db m < 10 then ''high'' else ''medium'')"
      "\<not> a_is_acknowledged a"
      by blast
    from check_low_stock_loop_others [OF rest,
        of now "fst (check_low_stock_body now m (db, n))" "snd (check_low_stock_body now m (db, n))"]
    obtain new2 where g:
      "persisted (fst (check_low_stock_loop now ms (check_low_stock_body now m (db, n)))) =
         persisted (fst (check_low_stock_body now m (db, n)))"
      "alerts (working (fst (check_low_stock_loop now ms (check_low_stock_body now m (db, n))))) =
         alerts (working (fst (check_low_stock_body now m (db, n)))) @ new2"
      "filter (\<lambda>x. a_medicine_id x = Some (m_id m)) new2 = []"
      by auto
    show ?thesis
      using True a g
      by (intro exI [of _ "[a] @ new2"] exI [of _ a]) simp
  next
    case False
    with Cons.prems have mem: "m \<in> set ms" and dist: "distinct (map m_id ms)"
      and ne: "m_id m' \<noteq> m_id m"
      by auto
    obtain new1 where f:
      "persisted (fst ?st) = persisted db"
      "batches (working (fst ?st)) = batches (working db)"
      "alerts (working (fst ?st)) = alerts (working db) @ new1"
      "new1 = [] \<or> (\<exists>a. new1 = [a] \<and> a_medicine_id a = Some (m_id m'))"
      using check_low_stock_body_frame [of now m' db n] by blast
    have none1: "existing_medicine_alert (fst ?st) (m_id m) LOW_STOCK = None"
      using Cons.prems(3) ne by (rule check_low_stock_body_keeps_none)
    have ts: "total_stock (fst ?st) m = total_stock db m"
      using f(2) by (rule total_stock_frame)
    have low1: "total_stock (fst ?st) m < 20"
      using Cons.prems(4) ts by simp
    from Cons.IH [OF dist mem none1 low1, of "snd ?st"]
    obtain new2 a where g:
      "persisted (fst (check_low_stock_loop now ms (fst ?st, snd ?st))) = persisted (fst ?st)"
      "alerts (working (fst (check_low_stock_loop now ms (fst ?st, snd ?st)))) =
         alerts (working (fst ?st)) @ new2"
      "filter (\<lambda>x. a_medicine_id x = Some (m_id m)) new2 = [a]"
      "a_alert_type a = (if total_stock (fst ?st) m = 0 then STOCK_OUT else LOW_STOCK)"
      "a_severity a = (if total_stock (fst ?st) m = 0 then ''critical''
                       else if total_stock (fst ?st) m < 10 then ''high'' else ''medium'')"
      "\<not> a_is_acknowledged a"
      by blast
    have n1: "filter (\<lambda>x. a_medicine_id x = Some (m_id m)) new1 = []"
      using f(4) ne by auto
    show ?thesis
      using f g n1 ts
      by (intro exI [of _ "new1 @ new2"] exI [of _ a]) simp
  qed
qed

text \<open>
  The low-stock rule of \<open>check_low_stock\<close> grades its alert as the specification says: for an active medicine
  whose stock is below 20 and that has no open alert, one sweep appends exactly one
  alert on this medicine, of type \<open>STOCK_OUT\<close> and severity critical for stock 0, of
  type \<open>LOW_STOCK\<close> and severity high below 10 and medium otherwise.
\<close>

lemma check_low_stock_grades_alert:
  assumes dist: "distinct (map m_id (medicines t))"
    and mem: "m \<in> set (medicines t)" and act: "m_is_active m"
    and low: "total_stock (open_session af t) m < 20"
    and noopen: "list_all (\<lambda>a. a_medicine_id a \<noteq> Some (m_id m) \<or> a_is_acknowledged a) (alerts t)"
  shows "\<exists>new a.
           alerts (persisted (snd (check_low_stock now (open_session af t)))) = alerts t @ new \<and>
           filter (\<lambda>x. a_medicine_id x = Some (m_id m)) new = [a] \<and>
           a_alert_type a =
             (if total_stock (open_session af t) m = 0 then STOCK_OUT else LOW_STOCK) \<and>
           a_severity a =
             (if total_stock (open_session af t) m = 0 then ''critical''
              else if total_stock (open_session af t) m < 10 then ''high'' else ''medium'') \<and>
           \<not> a_is_acknowledged a"
proof -
  let ?db = "open_session af t"
  let ?ms = "filter m_is_active (medicines t)"
  have d: "distinct (map m_id ?ms)"
    using dist by (simp add: distinct_map_filter)
  have m: "m \<in> set ?ms"
    using mem act by simp
  have none: "existing_medicine_alert ?db (m_id m) LOW_STOCK = None"
    using noopen
    by (auto simp: existing_medicine_alert_def visible_alerts_def open_session_def
        find_None_iff list_all_iff)
  from check_low_stock_loop_one [OF d m none low, of now 0]
  obtain new a where g:
    "alerts (working (fst (check_low_stock_loop now ?ms (?db, 0)))) = alerts (working ?db) @ new"
    "filter (\<lambda>x. a_medicine_id x = Some (m_id m)) new = [a]"
    "a_alert_type a = (if total_stock ?db m = 0 then STOCK_OUT else LOW_STOCK)"
    "a_severity a = (if total_stock ?db m = 0 then ''critical''
                     else if total_stock ?db m < 10 then ''high'' else ''medium'')"
    "\<not> a_is_acknowledged a"
    by blast
  have w: "medicines (working ?db) = medicines t" "alerts (working ?db) = alerts t"
    by (simp_all add: open_session_def)
  have "alerts (persisted (snd (check_low_stock now ?db))) = alerts t @ new"
    using g(1) w by (simp add: check_low_stock_def Let_def db_commit_def)
  with g show ?thesis
    by blast
qed

section \<open>The expiry rule on the scenario of the specification\<close>

lemmas expiry_defs = check_expiry_alerts_def check_expiry_alerts_body_def expiring_batches_def
  existing_batch_alert_def EXPIRY_ALERT_DAYS_def date_of_def combine_min_time_def Let_def

text \<open>
  The batch that expires in 45 days, in a session that flushes before it queries: one
  sweep creates one \<open>EXPIRY_WARNING\<close> alert of severity medium, a second sweep none.
\<close>

lemma check_expiry_alerts_scenario:
  "\<exists>db1 db2.
     check_expiry_alerts day1000 (open_session True (amx500_tables 70)) = Inr db1 \<and>
     map a_alert_type (alerts (persisted db1)) = [EXPIRY_WARNING] \<and>
     map a_severity (alerts (persisted db1)) = [''medium''] \<and>
     check_expiry_alerts day1000 (open_session True (persisted db1)) = Inr db2 \<and>
     alerts (persisted db2) = alerts (persisted db1)"
  by (simp add: expiry_defs session_defs scenario_defs)

text \<open>
  In a session that does not flush before it queries, the alert added for the 60-day
  window is not seen when the 90-day window is checked, and one sweep leaves two open
  alerts on the batch.
\<close>

lemma check_expiry_alerts_without_autoflush:
  "\<exists>db1.
     check_expiry_alerts day1000 (open_session False (amx500_tables 70)) = Inr db1 \<and>
     map a_batch_id (alerts (persisted db1)) = [Some 1, Some 1] \<and>
     map a_alert_type (alerts (persisted db1)) = [EXPIRY_WARNING, EXPIRY_WARNING] \<and>
     map a_is_acknowledged (alerts (persisted db1)) = [False, False]"
  by (simp add: expiry_defs session_defs scenario_defs)

section \<open>Demand forecast\<close>

lemma stock_sums_agree:
  "list_all (\<lambda>b. 0 \<le> b_quantity b) bs \<Longrightarrow>
   sum_list (map b_quantity (filter (\<lambda>b. \<not> b_is_expired b) bs)) =
   sum_list (map b_quantity (filter (\<lambda>b. b_quantity b > 0 \<and> \<not> b_is_expired b) bs))"
  by (induction bs) auto

lemma total_stock_raw:
  "nonnegative_quantities (medicine_batches db m) \<Longrightarrow>
   total_stock db m = raw_available_stock db m"
  unfolding nonnegative_quantities_def total_stock_def raw_available_stock_def
    stocked_batches_def
  by (rule stock_sums_agree)

lemma raw_available_stock_nonneg: "0 \<le> raw_available_stock db m"
  unfolding raw_available_stock_def stocked_batches_def
  by (rule sum_list_nonneg) auto



lemma nonzero_sums_agree:
  "sum_list (map b_quantity (filter (\<lambda>b. \<not> b_is_expired b) bs)) =
   sum_list (map b_quantity (filter (\<lambda>b. b_quantity b \<noteq> 0 \<and> \<not> b_is_expired b) bs))"
  by (induction bs) auto

text \<open>
  The stock the forecast and the low-stock rule of routers/alerts.py compute is the sum
  over the unexpired batches of non-zero quantity (the glossary's raw available stock),
  whatever the signs of the quantities.
\<close>

lemma total_stock_nonzero:
  "total_stock db m =
   sum_list (map b_quantity
     (filter (\<lambda>b. b_quantity b \<noteq> 0 \<and> \<not> b_is_expired b) (medicine_batches db m)))"
  unfolding total_stock_def by (rule nonzero_sums_agree)






lemma py_round2_hundredths: "py_round2 (of_int k / 100) = of_int k / 100"
  by (simp add: py_round2_def Let_def)

lemma confidence_hundredths:
  "min (95 / 100) (5 / 10 + of_nat n / 100) = (of_int (min 95 (50 + int n)) :: real) / 100"
  by (simp add: min_def field_simps)

lemma rounded_confidence:
  "py_round2 (min (95 / 100) (5 / 10 + of_nat n / 100)) = of_int (min 95 (50 + int n)) / 100"
  by (simp only: confidence_hundredths py_round2_hundredths)

lemma rounded_confidence_normal:
  "py_round2 (min (19 / 20) (1 / 2 + real n / 100)) = of_int (min 95 (50 + int n)) / 100"
  using rounded_confidence [of n] by simp

lemma confidence_of_count:
  assumes "get_medicine db medicine_id = Some m"
  shows "confidence_score (calculate_demand_forecast db medicine_id horizon_days now now2) =
     (if out_transactions db medicine_id (now - timedelta_days 90) = [] then 3 / 10
      else of_int (min 95 (50 + int (length
             (out_transactions db medicine_id (now - timedelta_days 90))))) / 100)"
  using assms
  by (simp add: calculate_demand_forecast_def Let_def rounded_confidence_normal)

text \<open>
  C6. For two existing medicines, in any two states of the ledger and whatever their
  stock, the one with at least as many \<open>OUT\<close> transactions in its 90-day window has at
  least the confidence score of the other; and no forecast, of an existing or an unknown
  medicine, has a confidence score above 0.95.
\<close>

theorem forecast_confidence_monotone:
  assumes m1: "get_medicine db1 id1 = Some m1"
    and m2: "get_medicine db2 id2 = Some m2"
    and le: "length (out_transactions db1 id1 (now1 - timedelta_days 90)) \<le>
             length (out_transactions db2 id2 (now2 - timedelta_days 90))"
  shows "confidence_score (calculate_demand_forecast db1 id1 h1 now1 now1') \<le>
         confidence_score (calculate_demand_forecast db2 id2 h2 now2 now2') \<and>
         confidence_score (calculate_demand_forecast db mid h now now') \<le> 95 / 100"
proof -
  have mono: "confidence_score (calculate_demand_forecast db1 id1 h1 now1 now1') \<le>
      confidence_score (calculate_demand_forecast db2 id2 h2 now2 now2')"
    using le
    by (auto simp: confidence_of_count [OF m1] confidence_of_count [OF m2] min_def
        field_simps)
  have bound: "confidence_score (calculate_demand_forecast db mid h now now') \<le> 95 / 100"
  proof (cases "get_medicine db mid")
    case None
    then show ?thesis
      by (simp add: calculate_demand_forecast_def)
  next
    case (Some m)
    show ?thesis
      by (auto simp: confidence_of_count [OF Some] min_def field_simps)
  qed
  from mono bound show ?thesis
    by (rule conjI)
qed

text \<open>
  No sale against one sale in the window: confidence 0.3 against 0.51.
\<close>

theorem forecast_confidence_monotone_witness:
  "get_medicine (open_session True no_batch_tables) 1 = Some amx500 \<and>
   get_medicine (open_session True sold_tables) 1 = Some amx500 \<and>
   length (out_transactions (open_session True no_batch_tables) 1
             (day1000 - timedelta_days 90)) \<le>
   length (out_transactions (open_session True sold_tables) 1
             (day1000 - timedelta_days 90)) \<and>
   confidence_score
     (calculate_demand_forecast (open_session True no_batch_tables) 1 30 day1000 day1000) \<le>
   confidence_score
     (calculate_demand_forecast (open_session True sold_tables) 1 30 day1000 day1000) \<and>
   confidence_score
     (calculate_demand_forecast (open_session True sold_tables) 1 30 day1000 day1000) \<le>
     95 / 100 \<and>
   confidence_score
     (calculate_demand_forecast (open_session True no_batch_tables) 1 30 day1000 day1000) =
     3 / 10 \<and>
   confidence_score
     (calculate_demand_forecast (open_session True sold_tables) 1 30 day1000 day1000) =
     51 / 100"
proof -
  have h1: "get_medicine (open_session True no_batch_tables) 1 = Some amx500"
    by (simp add: session_defs scenario_defs)
  have h2: "get_medicine (open_session True sold_tables) 1 = Some amx500"
    by (simp add: session_defs scenario_defs)
  have n1: "out_transactions (open_session True no_batch_tables) 1
      (day1000 - timedelta_days 90) = []"
    by (simp add: out_transactions_def session_defs scenario_defs)
  have n2: "out_transactions (open_session True sold_tables) 1
      (day1000 - timedelta_days 90) = [amx500_sale]"
    by (simp add: out_transactions_def timedelta_days_def session_defs scenario_defs)
  have h3: "length (out_transactions (open_session True no_batch_tables) 1
        (day1000 - timedelta_days 90)) \<le>
      length (out_transactions (open_session True sold_tables) 1
        (day1000 - timedelta_days 90))"
    by (simp add: n1 n2)
  have v1: "confidence_score
      (calculate_demand_forecast (open_session True no_batch_tables) 1 30 day1000 day1000) =
      3 / 10"
    by (simp add: confidence_of_count [OF h1] n1)
  have v2: "confidence_score
      (calculate_demand_forecast (open_session True sold_tables) 1 30 day1000 day1000) =
      51 / 100"
    by (simp add: confidence_of_count [OF h2] n2)
  note t = forecast_confidence_monotone [OF h1 h2 h3,
      of 30 day1000 30 day1000 "open_session True sold_tables" 1 30 day1000 day1000]
  have t1: "confidence_score
      (calculate_demand_forecast (open_session True no_batch_tables) 1 30 day1000 day1000) \<le>
    confidence_score
      (calculate_demand_forecast (open_session True sold_tables) 1 30 day1000 day1000)"
    using t by (rule conjunct1)
  have t2: "confidence_score
      (calculate_demand_forecast (open_session True sold_tables) 1 30 day1000 day1000) \<le>
      95 / 100"
    using t by (rule conjunct2)
  from h1 h2 h3 t1 t2 v1 v2 show ?thesis
    by (intro conjI) assumption+
qed

section \<open>Waste analytics\<close>

lemma sum_batch_values_returns:
  "list_all (\<lambda>b. get_medicine db (b_medicine_id b) \<noteq> None) bs \<Longrightarrow>
   \<exists>v. sum_batch_values db bs = Inr v"
proof (induction bs)
  case Nil
  show ?case by simp
next
  case (Cons b bs)
  then obtain m w where "get_medicine db (b_medicine_id b) = Some m"
    and "sum_batch_values db bs = Inr w"
    by auto
  then show ?case
    by (simp add: batch_value_def)
qed

lemma bucket_sum_returns:
  assumes "batches_have_medicine db"
  shows "\<exists>v. sum_batch_values db (filter P (batches (working db))) = Inr v"
proof -
  have "list_all (\<lambda>b. get_medicine db (b_medicine_id b) \<noteq> None)
      (filter P (batches (working db)))"
    using assms by (auto simp: batches_have_medicine_def list_all_iff)
  then show ?thesis
    by (rule sum_batch_values_returns)
qed

text \<open>
  C7. When every batch has its medicine, waste analytics returns a result in which the
  total waste value is the sum of the expired, damaged and recalled bucket values (the
  returned bucket's value is not part of it), and the wastage rate is 0 when the total
  sellable inventory value is 0 and otherwise, for a positive inventory value, the total
  waste value divided by the inventory value times 100, reported rounded to two decimals.
\<close>

theorem waste_analytics_totals:
  assumes fk: "batches_have_medicine db"
  shows "\<exists>r. get_waste_analytics start_date end_date category now db = Inr r \<and>
           tot_value (total r) =
             bk_value (expired r) + bk_value (damaged r) + bk_value (recalled r) \<and>
           (total_inventory_value db = 0 \<longrightarrow> wastage_rate_percent (total r) = 0) \<and>
           (total_inventory_value db > 0 \<longrightarrow>
              wastage_rate_percent (total r) =
                py_round2 (tot_value (total r) / total_inventory_value db * 100))"
proof -
  let ?e = "case end_date of None \<Rightarrow> now | Some e \<Rightarrow> e"
  let ?s = "case start_date of None \<Rightarrow> ?e - timedelta_days 90 | Some s \<Rightarrow> s"
  obtain ev where ev: "sum_batch_values db (expired_batches db ?s ?e category) = Inr ev"
    unfolding expired_batches_def using bucket_sum_returns [OF fk] by blast
  obtain dv where dv: "sum_batch_values db (damaged_batches db ?s ?e category) = Inr dv"
    unfolding damaged_batches_def using bucket_sum_returns [OF fk] by blast
  obtain rv where rv: "sum_batch_values db (recalled_batches db ?s ?e category) = Inr rv"
    unfolding recalled_batches_def using bucket_sum_returns [OF fk] by blast
  obtain tv where tv: "sum_batch_values db (returned_batches db ?s ?e category) = Inr tv"
    unfolding returned_batches_def using bucket_sum_returns [OF fk] by blast
  have zero: "py_round2 0 = 0"
    by (simp add: py_round2_def)
  show ?thesis
    using ev dv rv tv zero
    by (simp add: get_waste_analytics_def Let_def make_bucket_def)
qed

text \<open>
  Expired 120, damaged 60, recalled 24 and returned 84 in value, against a sellable
  inventory of 1284: the total is 204, without the 84, and the rate is 15.89 percent.
\<close>

theorem waste_analytics_totals_witness:
  "batches_have_medicine (open_session True waste_tables) \<and>
   total_inventory_value (open_session True waste_tables) = 1284 \<and>
   (\<exists>r. get_waste_analytics None None None day1000 (open_session True waste_tables) = Inr r \<and>
        bk_value (expired r) = 120 \<and> bk_value (damaged r) = 60 \<and>
        bk_value (recalled r) = 24 \<and> bk_value (returned r) = 84 \<and>
        tot_value (total r) = 204 \<and>
        wastage_rate_percent (total r) = py_round2 (204 / 1284 * 100) \<and>
        wastage_rate_percent (total r) = 1589 / 100)"
proof -
  let ?db = "open_session True waste_tables"
  have h: "batches_have_medicine ?db"
    by (simp add: batches_have_medicine_def session_defs scenario_defs)
  have inv: "total_inventory_value ?db = 1284"
    by (simp add: total_inventory_value_def sellable_row_value_def List.map_filter_def
        session_defs scenario_defs)
  from waste_analytics_totals [OF h, of None None None day1000]
  obtain r where
    r: "get_waste_analytics None None None day1000 ?db = Inr r"
      "tot_value (total r) =
         bk_value (expired r) + bk_value (damaged r) + bk_value (recalled r)"
      "total_inventory_value ?db > 0 \<longrightarrow>
         wastage_rate_percent (total r) =
           py_round2 (tot_value (total r) / total_inventory_value ?db * 100)"
    by blast
  have b: "map (\<lambda>f. bk_value (f r)) [expired, damaged, recalled, returned] = [120, 60, 24, 84]"
    using r(1)
    by (simp add: get_waste_analytics_def Let_def make_bucket_def expired_batches_def
        damaged_batches_def recalled_batches_def returned_batches_def updated_between_def
        in_category_def batch_value_def timedelta_days_def session_defs scenario_defs)
      auto
  have t: "tot_value (total r) = 204"
    using r(2) b by simp
  have w: "wastage_rate_percent (total r) = py_round2 (204 / 1284 * 100)"
    using r(3) inv t by simp
  have v: "py_round2 (204 / 1284 * 100) = 1589 / 100"
    by (simp add: py_round2_def Let_def)
  have ex: "\<exists>r. get_waste_analytics None None None day1000 ?db = Inr r \<and>
        bk_value (expired r) = 120 \<and> bk_value (damaged r) = 60 \<and>
        bk_value (recalled r) = 24 \<and> bk_value (returned r) = 84 \<and>
        tot_value (total r) = 204 \<and>
        wastage_rate_percent (total r) = py_round2 (204 / 1284 * 100) \<and>
        wastage_rate_percent (total r) = 1589 / 100"
    using r(1) b t w v by (intro exI [of _ r]) simp
  from h inv ex show ?thesis
    by (intro conjI) assumption+
qed

end
